theory Spec2Isabelle
  imports Main "HOL-Library.Sublist"
begin

section \<open>C strings and the CPL helpers called by the data source\<close>

text \<open>
  The data source of the INTERLIS 2 driver (\<^verbatim>\<open>ogrili2datasource.cpp\<close>) is written
  against GDAL's portability library. A C string is a \<open>string\<close> (a list of bytes);
  a possibly null \<^verbatim>\<open>char *\<close> is a \<open>string option\<close>. The helpers below are
  the ones the data source calls; they are defined in the library, not in the data source.
\<close>

definition NUL :: char where
  "NUL = CHR 0x00"

definition DQ :: string where
  "DQ = [CHR 0x22]"

definition SQ :: string where
  "SQ = [CHR 0x27]"

definition BACKSLASH :: char where
  "BACKSLASH = CHR 0x5C"

text \<open>What a C function sees of a byte buffer: the bytes before the first NUL.\<close>

definition c_str :: "string \<Rightarrow> string" where
  "c_str buf = takeWhile (\<lambda>c. c \<noteq> NUL) buf"

text \<open>
  Modelled from the spec: the macros \<^verbatim>\<open>EQUAL\<close> and \<^verbatim>\<open>STARTS_WITH\<close> of
  \<^verbatim>\<open>cpl_port.h\<close> are missing. The spec speaks of paths
  "beginning with" a marker and of "recognized" capability names. \<^verbatim>\<open>STARTS_WITH(a, b)\<close>
  is \<^verbatim>\<open>strncmp(a, b, strlen(b)) == 0\<close>; \<^verbatim>\<open>EQUAL(a, b)\<close> is
  \<^verbatim>\<open>strcasecmp(a, b) == 0\<close>, which folds the ASCII letters.
\<close>

definition c_toupper :: "char \<Rightarrow> char" where
  "c_toupper c =
     (case map_of (zip ''abcdefghijklmnopqrstuvwxyz'' ''ABCDEFGHIJKLMNOPQRSTUVWXYZ'') c of
        Some u \<Rightarrow> u
      | None \<Rightarrow> c)"

definition EQUAL :: "string \<Rightarrow> string \<Rightarrow> bool" where
  "EQUAL a b = (map c_toupper a = map c_toupper b)"

definition STARTS_WITH :: "string \<Rightarrow> string \<Rightarrow> bool" where
  "STARTS_WITH a b = (take (length b) a = b)"

text \<open>
  \<^verbatim>\<open>strstr(haystack, needle) != nullptr\<close>: the needle occurs somewhere in the
  haystack.
\<close>

fun strstr :: "string \<Rightarrow> string \<Rightarrow> bool" where
  "strstr [] needle = (needle = [])"
| "strstr (c # cs) needle = (STARTS_WITH (c # cs) needle \<or> strstr cs needle)"

text \<open>
  Modelled from the spec: \<^verbatim>\<open>CSLTokenizeString2\<close>, \<^verbatim>\<open>CSLCount\<close> and
  \<^verbatim>\<open>CSLFetchNameValue\<close> of \<^verbatim>\<open>cpl_string.cpp\<close> are missing. The spec has the
  address "split into ordered parts", part 0 the data path and part 1 the model path,
  with "zero path components after split" possible. With flags \<open>0\<close> the tokenizer cuts
  at every delimiter and drops empty tokens. An option list holds \<^verbatim>\<open>NAME=VALUE\<close>
  entries; the name is matched without regard to case, and \<^verbatim>\<open>:\<close> is accepted
  as separator too.
\<close>

fun tokenize_from :: "string \<Rightarrow> string \<Rightarrow> string \<Rightarrow> string list" where
  "tokenize_from delims tok [] = (if tok = [] then [] else [tok])"
| "tokenize_from delims tok (c # cs) =
     (if c \<in> set delims
      then (if tok = [] then [] else [tok]) @ tokenize_from delims [] cs
      else tokenize_from delims (tok @ [c]) cs)"

definition CSLTokenizeString2 :: "string \<Rightarrow> string \<Rightarrow> string list" where
  "CSLTokenizeString2 pszString pszDelimiters = tokenize_from pszDelimiters [] pszString"

definition CSLCount :: "string list \<Rightarrow> int" where
  "CSLCount papszStrList = int (length papszStrList)"

fun CSLFetchNameValue :: "string list \<Rightarrow> string \<Rightarrow> string option" where
  "CSLFetchNameValue [] pszName = None"
| "CSLFetchNameValue (s # rest) pszName =
     (if EQUAL (take (length pszName) s) pszName \<and> length pszName < length s
         \<and> (s ! length pszName = CHR ''='' \<or> s ! length pszName = CHR '':'')
      then Some (drop (length pszName + 1) s)
      else CSLFetchNameValue rest pszName)"

text \<open>
  \<^verbatim>\<open>filenames[0]\<close> of a token list is the null pointer when the list is empty (the
  array is null-terminated), and \<^verbatim>\<open>CPLStrdup\<close> of a null pointer is the empty string.
\<close>

definition CPLStrdup :: "string option \<Rightarrow> string" where
  "CPLStrdup p = (case p of None \<Rightarrow> [] | Some s \<Rightarrow> s)"

definition csl_index :: "string list \<Rightarrow> nat \<Rightarrow> string option" where
  "csl_index papszStrList i = (if i < length papszStrList then Some (papszStrList ! i) else None)"

text \<open>
  Modelled from the spec: \<^verbatim>\<open>CPLGetExtensionSafe\<close> and \<^verbatim>\<open>CPLFormFilenameSafe\<close>
  of \<^verbatim>\<open>cpl_path.cpp\<close> are missing. The spec speaks of a path that "has a bare
  \<^verbatim>\<open>.zip\<close> extension" and of an entry name that is "appended". The extension is what
  follows the last dot of the last path component, a dot that starts the component not
  counting, and is empty when longer than ten bytes. Forming a file name puts a
  separator between path and base name unless the path is empty or ends with one; the
  call of the data source has no extension argument, a base name that is neither
  relative nor \<^verbatim>\<open>..\<close>, and a path under \<^verbatim>\<open>/vsizip/\<close>, whose separator is \<^verbatim>\<open>/\<close>.
\<close>

definition is_path_sep :: "char \<Rightarrow> bool" where
  "is_path_sep c = (c = CHR ''/'' \<or> c = BACKSLASH)"

definition CPLGetFilename :: "string \<Rightarrow> string" where
  "CPLGetFilename pszFullFilename =
     rev (takeWhile (\<lambda>c. \<not> is_path_sep c) (rev pszFullFilename))"

definition CPLGetExtensionSafe :: "string \<Rightarrow> string" where
  "CPLGetExtensionSafe pszFullFilename =
     (let after_first = drop 1 (CPLGetFilename pszFullFilename);
          ext = (if CHR ''.'' \<in> set after_first
                 then rev (takeWhile (\<lambda>c. c \<noteq> CHR ''.'') (rev after_first))
                 else [])
      in if length ext > 10 then [] else ext)"

definition CPLFormFilenameSafe :: "string \<Rightarrow> string \<Rightarrow> string" where
  "CPLFormFilenameSafe pszPath pszBasename =
     (if pszPath \<noteq> [] \<and> \<not> is_path_sep (last pszPath)
      then pszPath @ ''/'' @ pszBasename
      else pszPath @ pszBasename)"

section \<open>Errors and file I/O as values\<close>

text \<open>
  \<^verbatim>\<open>CPLError\<close> appends to the error log; every call of the virtual file layer is
  recorded in a trace. A file handle is the path the file was opened under.
\<close>

datatype CPLErr = CE_None | CE_Debug | CE_Warning | CE_Failure | CE_Fatal

datatype CPLErrorNum = CPLE_None | CPLE_AppDefined | CPLE_OpenFailed

type_synonym cpl_error = "CPLErr \<times> CPLErrorNum \<times> string"

datatype vsi_call =
    VSIFOpenL string string
  | VSIFReadL string nat
  | VSIFPrintfL string string
  | VSIFCloseL string

section \<open>The data model\<close>

type_synonym OGRwkbGeometryType = int

definition wkbUnknown :: OGRwkbGeometryType where
  "wkbUnknown = 0"

definition wkbNone :: OGRwkbGeometryType where
  "wkbNone = 100"

record OGRGeomFieldDefn =
  pszGeomName :: string
  eGeomType :: OGRwkbGeometryType

definition GetType :: "OGRGeomFieldDefn \<Rightarrow> OGRwkbGeometryType" where
  "GetType g = eGeomType g"

record OGRFeatureDefn =
  pszFeatureClassName :: string
  apoFieldDefn :: "(string \<times> string) list"
  apoGeomFieldDefn :: "OGRGeomFieldDefn list"

text \<open>
  Modelled from the spec: the class \<^verbatim>\<open>OGRFeatureDefn\<close> of the OGR core is missing.
  The spec has the fallback "synthesize an ad-hoc schema containing only a geometry field
  of the requested type (or none)". A new feature definition has no attribute field and
  one geometry field of unknown type; \<^verbatim>\<open>SetGeomType\<close> retypes the first geometry
  field, removes a single one for \<^verbatim>\<open>wkbNone\<close>, and adds one when there is none.
\<close>

definition OGRFeatureDefn_new :: "string \<Rightarrow> OGRFeatureDefn" where
  "OGRFeatureDefn_new pszName =
     \<lparr>pszFeatureClassName = pszName, apoFieldDefn = [],
      apoGeomFieldDefn = [\<lparr>pszGeomName = [], eGeomType = wkbUnknown\<rparr>]\<rparr>"

definition SetGeomType :: "OGRwkbGeometryType \<Rightarrow> OGRFeatureDefn \<Rightarrow> OGRFeatureDefn" where
  "SetGeomType eNewType d =
     (case apoGeomFieldDefn d of
        [] \<Rightarrow> (if eNewType \<noteq> wkbNone
               then d\<lparr>apoGeomFieldDefn := [\<lparr>pszGeomName = [], eGeomType = eNewType\<rparr>]\<rparr>
               else d)
      | g # gs \<Rightarrow> (if gs = [] \<and> eNewType = wkbNone
                   then d\<lparr>apoGeomFieldDefn := []\<rparr>
                   else d\<lparr>apoGeomFieldDefn := g\<lparr>eGeomType := eNewType\<rparr> # gs\<rparr>))"

type_synonym GeomFieldInfos = "(string \<times> string) list"

record FeatureDefnInfo =
  poTableDefn :: "OGRFeatureDefn option"
  poGeomFieldInfos :: GeomFieldInfos

definition GetTableDefnRef :: "FeatureDefnInfo \<Rightarrow> OGRFeatureDefn option" where
  "GetTableDefnRef info = poTableDefn info"

record IliModelInfo =
  name :: string
  version :: string
  uri :: string

text \<open>
  The model catalog, \<^verbatim>\<open>ImdReader\<close>: the model descriptors in order, the name of the
  main basket, and the lookup of a table's schema by layer name. The reader of model
  files is an external collaborator, so the lookup is a component of the catalog; a
  table that is not in the model has no table definition.
\<close>

record ImdReader =
  modelInfos :: "IliModelInfo list"
  mainBasketName :: string
  GetFeatureDefnInfo :: "string \<Rightarrow> FeatureDefnInfo"

record OGRILI2Layer =
  poFeatureDefn :: OGRFeatureDefn
  oGeomFieldInfos :: GeomFieldInfos
  iReadCursor :: nat

definition OGRILI2Layer_new :: "OGRFeatureDefn \<Rightarrow> GeomFieldInfos \<Rightarrow> OGRILI2Layer" where
  "OGRILI2Layer_new poFeatureDefnIn oGeomFieldInfosIn =
     \<lparr>poFeatureDefn = poFeatureDefnIn, oGeomFieldInfos = oGeomFieldInfosIn, iReadCursor = 0\<rparr>"

definition ResetReading :: "OGRILI2Layer \<Rightarrow> OGRILI2Layer" where
  "ResetReading l = l\<lparr>iReadCursor := 0\<rparr>"

text \<open>
  The data source. \<open>papoLayers\<close> with \<open>nLayers\<close> is the array of the layers created for
  writing, \<open>listLayer\<close> the list of the layers the transfer reader found. \<open>fpOutput\<close> is
  the output stream, held or null. The error log and the I/O trace are the part of the
  world the data source acts on.
\<close>

record OGRILI2DataSource =
  pszName :: "string option"
  poImdReader :: ImdReader
  poReader :: bool
  fpOutput :: "string option"
  nLayers :: int
  papoLayers :: "OGRILI2Layer list"
  listLayer :: "OGRILI2Layer list"
  cpl_errors :: "cpl_error list"
  vsi_trace :: "vsi_call list"

text \<open>
  The external collaborators: which files can be read and with what content, which can
  be opened for writing, whether the transfer reader can be instantiated, the layers it
  finds in a data file (given the model file, empty when there is none), what reading a
  model file does to the catalog, and the release name of the library.
\<close>

record environment =
  file_content :: "string \<Rightarrow> string option"
  file_writable :: "string \<Rightarrow> string \<Rightarrow> bool"
  reader_available :: bool
  reader_layers :: "string \<Rightarrow> string \<Rightarrow> OGRILI2Layer list"
  ReadModel :: "string \<Rightarrow> ImdReader \<Rightarrow> ImdReader"
  release_name :: string

definition CPLError :: "CPLErr \<Rightarrow> CPLErrorNum \<Rightarrow> string \<Rightarrow> OGRILI2DataSource \<Rightarrow> OGRILI2DataSource" where
  "CPLError eErrClass err_no msg ds = ds\<lparr>cpl_errors := cpl_errors ds @ [(eErrClass, err_no, msg)]\<rparr>"

definition vsi :: "vsi_call \<Rightarrow> OGRILI2DataSource \<Rightarrow> OGRILI2DataSource" where
  "vsi c ds = ds\<lparr>vsi_trace := vsi_trace ds @ [c]\<rparr>"

section \<open>The constructor\<close>

text \<open>
  \<^verbatim>\<open>new ImdReader(2)\<close> is the external catalog in its initial state, a parameter here.
\<close>

definition OGRILI2DataSource_new :: "ImdReader \<Rightarrow> OGRILI2DataSource" where
  "OGRILI2DataSource_new imd =
     \<lparr>pszName = None, poImdReader = imd, poReader = False, fpOutput = None,
      nLayers = 0, papoLayers = [], listLayer = [], cpl_errors = [], vsi_trace = []\<rparr>"

section \<open>Layer lookup by index\<close>

text \<open>
  \<^verbatim>\<open>GetLayer\<close> walks \<open>listLayer\<close> with a counter \<open>i\<close> from \<open>0\<close> while \<open>i < iLayer\<close> and
  the iterator is not at the end. The loop returns the counter and the iterator (the
  rest of the list); the counter is the number of steps taken. The counter never
  exceeds \<open>iLayer\<close>, so the C \<^verbatim>\<open>int\<close> does not overflow and is an \<open>int\<close> here.
\<close>

fun GetLayer_loop :: "int \<Rightarrow> int \<Rightarrow> OGRILI2Layer list \<Rightarrow> int \<times> OGRILI2Layer list" where
  "GetLayer_loop i iLayer [] = (i, [])"
| "GetLayer_loop i iLayer (l # layerIt) =
     (if i < iLayer then GetLayer_loop (i + 1) iLayer layerIt else (i, l # layerIt))"

definition GetLayer :: "OGRILI2DataSource \<Rightarrow> int \<Rightarrow> OGRILI2Layer option" where
  "GetLayer ds iLayer =
     (case GetLayer_loop 0 iLayer (listLayer ds) of
        (i, []) \<Rightarrow> None
      | (i, tmpLayer # _) \<Rightarrow> (if i = iLayer then Some tmpLayer else None))"

section \<open>The capability query\<close>

text \<open>
  Modelled from the spec: the capability names \<^verbatim>\<open>ODsCCreateLayer\<close>,
  \<^verbatim>\<open>ODsCCurveGeometries\<close> and \<^verbatim>\<open>ODsCZGeometries\<close> of \<^verbatim>\<open>ogr_core.h\<close> are missing;
  the spec names them create-layer, curve-geometries and Z-geometries.
\<close>

definition ODsCCreateLayer :: string where
  "ODsCCreateLayer = ''CreateLayer''"

definition ODsCCurveGeometries :: string where
  "ODsCCurveGeometries = ''CurveGeometries''"

definition ODsCZGeometries :: string where
  "ODsCZGeometries = ''ZGeometries''"

text \<open>
  \<^verbatim>\<open>TestCapability\<close> is a member function; it returns its answer and the data source as
  it leaves it.
\<close>

definition TestCapability :: "string \<Rightarrow> OGRILI2DataSource \<Rightarrow> bool \<times> OGRILI2DataSource" where
  "TestCapability pszCap ds =
     (if EQUAL pszCap ODsCCreateLayer then (True, ds)
      else if EQUAL pszCap ODsCCurveGeometries then (True, ds)
      else if EQUAL pszCap ODsCZGeometries then (True, ds)
      else (False, ds))"

section \<open>Layer creation\<close>

definition adhoc_warning :: "string \<Rightarrow> string" where
  "adhoc_warning pszLayerName =
     ''Layer '' @ SQ @ pszLayerName @ SQ
       @ '' not found in model definition. Creating adhoc layer''"

definition ICreateLayer ::
  "string \<Rightarrow> OGRGeomFieldDefn option \<Rightarrow> OGRILI2DataSource
     \<Rightarrow> OGRILI2Layer option \<times> OGRILI2DataSource" where
  "ICreateLayer pszLayerName poGeomFieldDefn ds =
     (if fpOutput ds = None then (None, ds)
      else
        let eType = (case poGeomFieldDefn of Some g \<Rightarrow> GetType g | None \<Rightarrow> wkbNone);
            featureDefnInfo = GetFeatureDefnInfo (poImdReader ds) pszLayerName;
            (poFeatureDefn, ds1) =
              (case GetTableDefnRef featureDefnInfo of
                 None \<Rightarrow>
                   (SetGeomType eType (OGRFeatureDefn_new pszLayerName),
                    CPLError CE_Warning CPLE_AppDefined (adhoc_warning pszLayerName) ds)
               | Some d \<Rightarrow> (d, ds));
            poLayer = OGRILI2Layer_new poFeatureDefn (poGeomFieldInfos featureDefnInfo)
        in (Some poLayer,
            ds1\<lparr>nLayers := nLayers ds1 + 1, papoLayers := papoLayers ds1 @ [poLayer]\<rparr>))"

section \<open>Create: the write path\<close>

text \<open>
  \<^verbatim>\<open>fpOutput = VSIFOpenL(pszName, mode)\<close>: the call is recorded, and the stream is held
  when the environment lets the file be opened.
\<close>

definition open_fpOutput ::
  "environment \<Rightarrow> string \<Rightarrow> string \<Rightarrow> OGRILI2DataSource \<Rightarrow> OGRILI2DataSource" where
  "open_fpOutput env path mode ds =
     (vsi (VSIFOpenL path mode) ds)
       \<lparr>pszName := Some path,
        fpOutput := (if file_writable env path mode then Some path else None)\<rparr>"

definition xml_prolog :: string where
  "xml_prolog = ''<?xml version='' @ DQ @ ''1.0'' @ DQ @ '' encoding='' @ DQ @ ''utf-8'' @ DQ
     @ '' ?>\<newline>''"

definition transfer_open :: string where
  "transfer_open = ''<TRANSFER xmlns='' @ DQ @ ''http://www.interlis.ch/INTERLIS2.3'' @ DQ
     @ ''>\<newline>''"

definition headersection_open :: "string \<Rightarrow> string" where
  "headersection_open release = ''<HEADERSECTION SENDER='' @ DQ @ ''OGR/GDAL '' @ release @ DQ
     @ '' VERSION='' @ DQ @ ''2.3'' @ DQ @ ''>\<newline>''"

definition model_entry :: "IliModelInfo \<Rightarrow> string" where
  "model_entry it = ''<MODEL NAME='' @ DQ @ name it @ DQ @ '' URI='' @ DQ @ uri it @ DQ
     @ '' VERSION='' @ DQ @ version it @ DQ @ ''/>\<newline>''"

definition basket_open :: "string \<Rightarrow> string" where
  "basket_open basketName = ''<'' @ basketName @ '' BID='' @ DQ @ basketName @ DQ @ ''>\<newline>''"

definition basket_close :: "string \<Rightarrow> string" where
  "basket_close basketName = ''</'' @ basketName @ ''>\<newline>''"

fun write_models :: "string \<Rightarrow> IliModelInfo list \<Rightarrow> OGRILI2DataSource \<Rightarrow> OGRILI2DataSource" where
  "write_models fp [] ds = ds"
| "write_models fp (it # rest) ds =
     write_models fp rest (vsi (VSIFPrintfL fp (model_entry it)) ds)"

definition write_headers :: "environment \<Rightarrow> string \<Rightarrow> OGRILI2DataSource \<Rightarrow> OGRILI2DataSource" where
  "write_headers env fp ds0 =
     (let ds1 = vsi (VSIFPrintfL fp xml_prolog) ds0;
          ds2 = vsi (VSIFPrintfL fp transfer_open) ds1;
          ds3 = vsi (VSIFPrintfL fp (headersection_open (release_name env))) ds2;
          ds4 = vsi (VSIFPrintfL fp ''<MODELS>\<newline>'') ds3;
          ds5 = write_models fp (modelInfos (poImdReader ds4)) ds4;
          ds6 = vsi (VSIFPrintfL fp ''</MODELS>\<newline>'') ds5;
          ds7 = vsi (VSIFPrintfL fp ''</HEADERSECTION>\<newline>'') ds6;
          ds8 = vsi (VSIFPrintfL fp ''<DATASECTION>\<newline>'') ds7;
          basketName = mainBasketName (poImdReader ds8)
      in vsi (VSIFPrintfL fp (basket_open basketName)) ds8)"

definition Create :: "environment \<Rightarrow> string \<Rightarrow> OGRILI2DataSource \<Rightarrow> bool \<times> OGRILI2DataSource" where
  "Create env pszFilename ds0 =
     (let filenames = CSLTokenizeString2 pszFilename '','';
          pszName0 = CPLStrdup (csl_index filenames 0);
          ds1 = ds0\<lparr>pszName := Some pszName0\<rparr>
      in case (if CSLCount filenames > 1 then csl_index filenames 1 else None) of
           None \<Rightarrow>
             (False,
              CPLError CE_Failure CPLE_AppDefined
                ''ILI2 Create(): model file not specified in destination filename.'' ds1)
         | Some pszModelFilename \<Rightarrow>
             let ds2 =
                   (if pszName0 = ''/vsistdout/'' \<or> STARTS_WITH pszName0 ''/vsigzip/''
                    then open_fpOutput env pszName0 ''wb'' ds1
                    else if STARTS_WITH pszName0 ''/vsizip/''
                    then (if EQUAL (CPLGetExtensionSafe pszName0) ''zip''
                          then open_fpOutput env (CPLFormFilenameSafe pszName0 ''out.xtf'') ''wb'' ds1
                          else open_fpOutput env pszName0 ''wb'' ds1)
                    else open_fpOutput env pszName0 ''wb+'' ds1)
             in (case fpOutput ds2 of
                   None \<Rightarrow>
                     (False,
                      CPLError CE_Failure CPLE_OpenFailed
                        (''Failed to create XTF file '' @ CPLStrdup (pszName ds2) @ ''.'') ds2)
                 | Some fp \<Rightarrow>
                     (True,
                      write_headers env fp
                        (ds2\<lparr>poImdReader := ReadModel env pszModelFilename (poImdReader ds2)\<rparr>))))"

section \<open>Teardown\<close>

text \<open>
  The destructor releases the layers, writes the closing framing when the output stream is
  held, closes the stream and releases the reader and the name. What it returns is the
  data source with everything released; the error log and the I/O trace are what is left
  of it.
\<close>

definition OGRILI2DataSource_delete :: "OGRILI2DataSource \<Rightarrow> OGRILI2DataSource" where
  "OGRILI2DataSource_delete ds0 =
     (let ds1 = ds0\<lparr>nLayers := 0, papoLayers := []\<rparr>;
          ds2 =
            (case fpOutput ds1 of
               None \<Rightarrow> ds1
             | Some fp \<Rightarrow>
                 let d1 = vsi (VSIFPrintfL fp (basket_close (mainBasketName (poImdReader ds1)))) ds1;
                     d2 = vsi (VSIFPrintfL fp ''</DATASECTION>\<newline>'') d1;
                     d3 = vsi (VSIFPrintfL fp ''</TRANSFER>\<newline>'') d2
                 in (vsi (VSIFCloseL fp) d3)\<lparr>fpOutput := None\<rparr>)
      in ds2\<lparr>poReader := False, listLayer := [], pszName := None\<rparr>)"

section \<open>Open: the read path\<close>

text \<open>
  The data file and the model file of an address: the \<^verbatim>\<open>MODEL\<close> open option when
  there is one, else the first two tokens of the address; no token at all is a failure.
\<close>

definition Open_filenames :: "string \<Rightarrow> string list \<Rightarrow> (string \<times> string) option" where
  "Open_filenames pszNewName papszOpenOptionsIn =
     (case CSLFetchNameValue papszOpenOptionsIn ''MODEL'' of
        Some osModelFilename \<Rightarrow> Some (pszNewName, osModelFilename)
      | None \<Rightarrow>
          let filenames = CSLTokenizeString2 pszNewName '','';
              nCount = CSLCount filenames
          in if nCount = 0 then None
             else Some (filenames ! 0, if nCount > 1 then filenames ! 1 else []))"

text \<open>
  The header chunk: \<^verbatim>\<open>VSIFReadL\<close> fills the buffer of 1000 bytes with the first bytes
  of the file, and a NUL is stored over the last byte when the buffer is full, after the
  bytes read otherwise. The bytes after that NUL are never looked at.
\<close>

definition szHeader_of :: "string \<Rightarrow> string" where
  "szHeader_of content =
     (let buf = take 1000 content;
          nLen = length buf
      in if nLen = 1000 then buf[999 := NUL] else buf @ [NUL])"

definition header_rejected :: "string \<Rightarrow> bool" where
  "header_rejected szHeader =
     (szHeader ! 0 \<noteq> CHR ''<'' \<or> \<not> strstr (c_str szHeader) ''interlis.ch/INTERLIS2'')"

definition open_failed_msg :: "string \<Rightarrow> string" where
  "open_failed_msg pszNewName = ''Failed to open ILI2 file `'' @ pszNewName @ SQ @ ''.''"

definition no_reader_msg :: "string \<Rightarrow> string" where
  "no_reader_msg pszNewName =
     ''File '' @ pszNewName @ '' appears to be ILI2 but the ILI2 reader cannot\<newline>''
       @ ''be instantiated, likely because Xerces support was not\<newline>''
       @ ''configured in.''"

definition Open ::
  "environment \<Rightarrow> string \<Rightarrow> string list \<Rightarrow> bool \<Rightarrow> OGRILI2DataSource
     \<Rightarrow> bool \<times> OGRILI2DataSource" where
  "Open env pszNewName papszOpenOptionsIn bTestOpen ds0 =
     (case Open_filenames pszNewName papszOpenOptionsIn of
        None \<Rightarrow> (False, ds0)
      | Some (osBasename, osModelFilename) \<Rightarrow>
          let ds1 = vsi (VSIFOpenL osBasename ''r'') (ds0\<lparr>pszName := Some osBasename\<rparr>)
          in (case file_content env osBasename of
               None \<Rightarrow>
                 (False,
                  if \<not> bTestOpen
                  then CPLError CE_Failure CPLE_OpenFailed (open_failed_msg pszNewName) ds1
                  else ds1)
             | Some content \<Rightarrow>
                 let ds2 = (if bTestOpen then vsi (VSIFReadL osBasename 1000) ds1 else ds1)
                 in if bTestOpen \<and> header_rejected (szHeader_of content)
                    then (False, vsi (VSIFCloseL osBasename) ds2)
                    else
                      let ds3 = vsi (VSIFCloseL osBasename) ds2
                      in if \<not> reader_available env
                         then (False,
                               CPLError CE_Failure CPLE_AppDefined (no_reader_msg pszNewName)
                                 (ds3\<lparr>poReader := False\<rparr>))
                         else
                           let imd = (if osModelFilename \<noteq> []
                                      then ReadModel env osModelFilename (poImdReader ds3)
                                      else poImdReader ds3)
                           in (True,
                               ds3\<lparr>poReader := True, poImdReader := imd,
                                   listLayer :=
                                     map ResetReading
                                       (reader_layers env osBasename osModelFilename)\<rparr>)))"

section \<open>A container's life between creation and teardown\<close>

text \<open>
  The calls a client can make on a data source once it is open: the data-source
  interface of this file. Features are appended through the layers, which is not part of
  the data source.
\<close>

datatype call =
    CallICreateLayer string "OGRGeomFieldDefn option"
  | CallGetLayer int
  | CallTestCapability string

fun do_call :: "call \<Rightarrow> OGRILI2DataSource \<Rightarrow> OGRILI2DataSource" where
  "do_call (CallICreateLayer pszLayerName poGeomFieldDefn) ds =
     snd (ICreateLayer pszLayerName poGeomFieldDefn ds)"
| "do_call (CallGetLayer iLayer) ds = ds"
| "do_call (CallTestCapability pszCap) ds = snd (TestCapability pszCap ds)"

fun do_calls :: "call list \<Rightarrow> OGRILI2DataSource \<Rightarrow> OGRILI2DataSource" where
  "do_calls [] ds = ds"
| "do_calls (c # cs) ds = do_calls cs (do_call c ds)"

text \<open>The texts written to a file, in order: the document.\<close>

fun written :: "string \<Rightarrow> vsi_call list \<Rightarrow> string list" where
  "written fp [] = []"
| "written fp (VSIFPrintfL f txt # rest) = (if f = fp then txt # written fp rest else written fp rest)"
| "written fp (c # rest) = written fp rest"

section \<open>Reading a trace, and the framing as the interface lays it out\<close>

text \<open>The files opened in a trace, each with its mode, in order.\<close>

fun opened :: "vsi_call list \<Rightarrow> (string \<times> string) list" where
  "opened [] = []"
| "opened (VSIFOpenL p m # rest) = (p, m) # opened rest"
| "opened (c # rest) = opened rest"

text \<open>A call that writes the close tag of the data section or of the transfer envelope.\<close>

fun is_footer_write :: "vsi_call \<Rightarrow> bool" where
  "is_footer_write (VSIFPrintfL f txt) =
     (txt = ''</DATASECTION>\<newline>'' \<or> txt = ''</TRANSFER>\<newline>'')"
| "is_footer_write c = False"

text \<open>
  The output document of the interface description, in two halves: the opening framing up
  to the basket's open tag, for a catalog and a release name, and the closing framing.
\<close>

definition spec_opening_framing :: "string \<Rightarrow> ImdReader \<Rightarrow> string list" where
  "spec_opening_framing release imd =
     [xml_prolog, transfer_open, headersection_open release, ''<MODELS>\<newline>'']
       @ map model_entry (modelInfos imd)
       @ [''</MODELS>\<newline>'', ''</HEADERSECTION>\<newline>'', ''<DATASECTION>\<newline>'',
          basket_open (mainBasketName imd)]"

definition spec_closing_framing :: "ImdReader \<Rightarrow> string list" where
  "spec_closing_framing imd =
     [basket_close (mainBasketName imd), ''</DATASECTION>\<newline>'', ''</TRANSFER>\<newline>'']"

text \<open>
  The path and the mode \<^verbatim>\<open>Create\<close> opens for an output name: the branches of
  \<^verbatim>\<open>Create\<close> around its calls of \<^verbatim>\<open>VSIFOpenL\<close>, on their own.
\<close>

definition output_path :: "string \<Rightarrow> string \<times> string" where
  "output_path out =
     (if out = ''/vsistdout/'' \<or> STARTS_WITH out ''/vsigzip/'' then (out, ''wb'')
      else if STARTS_WITH out ''/vsizip/''
      then (if EQUAL (CPLGetExtensionSafe out) ''zip''
            then (CPLFormFilenameSafe out ''out.xtf'', ''wb'') else (out, ''wb''))
      else (out, ''wb+''))"

text \<open>
  The acceptance test of the probe as the interface description words it: the first byte
  of the window that is not white space is \<^verbatim>\<open><\<close>, and the window contains the marker
  of the namespace.
\<close>

definition spec_isspace :: "char \<Rightarrow> bool" where
  "spec_isspace c = (c \<in> set [CHR '' '', CHR 0x09, CHR 0x0A, CHR 0x0B, CHR 0x0C, CHR 0x0D])"

definition spec_probe_accepts :: "string \<Rightarrow> bool" where
  "spec_probe_accepts window =
     ((case dropWhile spec_isspace window of [] \<Rightarrow> False | c # _ \<Rightarrow> c = CHR ''<'')
      \<and> strstr window ''interlis.ch/INTERLIS2'')"

section \<open>Concrete catalogs, environments and containers\<close>

text \<open>
  A small world to run the data source in: a catalog of two models with one table, a file
  system with a transfer file, the same file behind a leading blank, and a place that
  cannot be written to.
\<close>

definition ex_no_table :: FeatureDefnInfo where
  "ex_no_table = \<lparr>poTableDefn = None, poGeomFieldInfos = []\<rparr>"

definition ex_imd_new :: ImdReader where
  "ex_imd_new = \<lparr>modelInfos = [], mainBasketName = [], GetFeatureDefnInfo = (\<lambda>_. ex_no_table)\<rparr>"

definition ex_street_defn :: OGRFeatureDefn where
  "ex_street_defn =
     \<lparr>pszFeatureClassName = ''Roads.Net.Street'',
      apoFieldDefn = [(''Name'', ''String'')],
      apoGeomFieldDefn = [\<lparr>pszGeomName = ''Axis'', eGeomType = 2\<rparr>]\<rparr>"

definition ex_catalog :: ImdReader where
  "ex_catalog =
     \<lparr>modelInfos =
        [\<lparr>name = ''Units'', version = ''2012-02-20'', uri = ''http://www.interlis.ch/models''\<rparr>,
         \<lparr>name = ''Roads'', version = ''1'', uri = ''http://example.org/roads''\<rparr>],
      mainBasketName = ''Roads.Net'',
      GetFeatureDefnInfo =
        (\<lambda>n. if EQUAL n ''Roads.Net.Street''
             then \<lparr>poTableDefn = Some ex_street_defn, poGeomFieldInfos = [(''Axis'', ''Polyline'')]\<rparr>
             else ex_no_table)\<rparr>"

definition ex_xtf :: string where
  "ex_xtf = ''<?xml version=1.0?><TRANSFER xmlns=http://www.interlis.ch/INTERLIS2.3>''"

definition ex_street_layer :: OGRILI2Layer where
  "ex_street_layer =
     \<lparr>poFeatureDefn = ex_street_defn, oGeomFieldInfos = [(''Axis'', ''Polyline'')], iReadCursor = 7\<rparr>"

definition ex_env :: environment where
  "ex_env =
     \<lparr>file_content =
        (\<lambda>p. if p = ''sample.xtf'' then Some ex_xtf
             else if p = ''padded.xtf'' then Some ('' '' @ ex_xtf)
             else None),
      file_writable = (\<lambda>p m. \<not> STARTS_WITH p ''/readonly/''),
      reader_available = True,
      reader_layers = (\<lambda>p m. if p = ''sample.xtf'' then [ex_street_layer] else []),
      ReadModel = (\<lambda>p imd. ex_catalog),
      release_name = ''3.11.0''\<rparr>"

definition ex_new :: OGRILI2DataSource where
  "ex_new = OGRILI2DataSource_new ex_imd_new"

definition ex_read :: OGRILI2DataSource where
  "ex_read = snd (Open ex_env ''sample.xtf'' [] True ex_new)"

definition ex_written :: OGRILI2DataSource where
  "ex_written = snd (Create ex_env ''out.xtf,roads.imd'' ex_new)"

definition ex_created :: OGRILI2DataSource where
  "ex_created = snd (ICreateLayer ''Adhoc'' None ex_written)"

definition ex_failed :: OGRILI2DataSource where
  "ex_failed = snd (Create ex_env ''out.xtf'' ex_new)"

definition ex_adhoc_layer :: OGRILI2Layer where
  "ex_adhoc_layer =
     \<lparr>poFeatureDefn = \<lparr>pszFeatureClassName = ''Adhoc'', apoFieldDefn = [], apoGeomFieldDefn = []\<rparr>,
      oGeomFieldInfos = [], iReadCursor = 0\<rparr>"

definition ex_point :: OGRGeomFieldDefn where
  "ex_point = \<lparr>pszGeomName = ''Position'', eGeomType = 1\<rparr>"

section \<open>Layer lookup by index: properties\<close>

lemma GetLayer_loop_eq:
  "GetLayer_loop i iLayer ls =
     (if iLayer \<le> i then (i, ls)
      else if int (length ls) \<le> iLayer - i then (i + int (length ls), [])
      else (iLayer, drop (nat (iLayer - i)) ls))"
proof (induction ls arbitrary: i)
  case Nil
  then show ?case by simp
next
  case (Cons l ls)
  show ?case
  proof (cases "i < iLayer")
    case True
    show ?thesis
    proof (cases "iLayer \<le> i + 1")
      case le: True
      with True have eq: "iLayer = i + 1" by simp
      have "ls = []" if "1 + int (length ls) \<le> 1" using that by simp
      with True eq Cons[of "i + 1"] show ?thesis by auto
    next
      case gt: False
      then have "nat (iLayer - i) = Suc (nat (iLayer - (i + 1)))" by simp
      with True gt Cons[of "i + 1"] show ?thesis by auto
    qed
  next
    case False
    then show ?thesis by simp
  qed
qed

lemma GetLayer_eq:
  "GetLayer ds iLayer =
     (if 0 \<le> iLayer \<and> iLayer < int (length (listLayer ds))
      then Some (listLayer ds ! nat iLayer) else None)"
proof -
  let ?ls = "listLayer ds"
  consider "iLayer < 0" | "iLayer = 0"
    | "0 < iLayer" "iLayer < int (length ?ls)" | "0 < iLayer" "int (length ?ls) \<le> iLayer"
    by linarith
  then show ?thesis
  proof cases
    case 1
    then show ?thesis by (simp add: GetLayer_def GetLayer_loop_eq split: list.splits)
  next
    case 2
    then show ?thesis by (cases ?ls) (simp_all add: GetLayer_def GetLayer_loop_eq)
  next
    case 3
    then have "drop (nat iLayer) ?ls = ?ls ! nat iLayer # drop (Suc (nat iLayer)) ?ls"
      by (simp add: Cons_nth_drop_Suc)
    with 3 show ?thesis by (simp add: GetLayer_def GetLayer_loop_eq)
  next
    case 4
    then show ?thesis by (simp add: GetLayer_def GetLayer_loop_eq)
  qed
qed

text \<open>
  Claim C10. For a negative index the loop of \<^verbatim>\<open>GetLayer\<close> takes no step (it returns
  the counter \<open>0\<close> and the iterator at the start of the list) and the lookup returns null.
  The lookup is defined for every integer index, and what it returns is null or a layer
  of the list: nothing outside the list is read.
\<close>

theorem GetLayer_negative_index:
  "(iLayer < 0 \<longrightarrow>
      GetLayer_loop 0 iLayer (listLayer ds) = (0, listLayer ds) \<and> GetLayer ds iLayer = None)
   \<and> (GetLayer ds j = None \<or> GetLayer ds j \<in> Some ` set (listLayer ds))"
  by (auto simp add: GetLayer_eq GetLayer_loop_eq)

theorem GetLayer_negative_index_witness:
  "(- 1 :: int) < 0
   \<and> listLayer ex_read = [ResetReading ex_street_layer]
   \<and> GetLayer_loop 0 (- 1) (listLayer ex_read) = (0, listLayer ex_read)
   \<and> GetLayer ex_read (- 1) = None"
proof -
  have ls: "listLayer ex_read = [ResetReading ex_street_layer]"
    by (simp add: ex_read_def ex_new_def ex_env_def ex_xtf_def Open_def Open_filenames_def
        CSLTokenizeString2_def CSLCount_def OGRILI2DataSource_new_def vsi_def
        header_rejected_def szHeader_of_def c_str_def NUL_def STARTS_WITH_def)
  from GetLayer_negative_index [of "- 1" ex_read 0] ls show ?thesis by simp
qed

section \<open>The capability query: properties\<close>

text \<open>
  Claim C8. \<^verbatim>\<open>TestCapability\<close> leaves the data source as it found it, and its answer
  depends on the capability name alone: true for the create-layer, curve-geometries and
  Z-geometries names, false for every other name. A name is recognized the way the macro
  \<^verbatim>\<open>EQUAL\<close> compares it, that is, whatever the case of its letters.
\<close>

theorem TestCapability_pure:
  "TestCapability pszCap ds =
     (EQUAL pszCap ODsCCreateLayer \<or> EQUAL pszCap ODsCCurveGeometries
        \<or> EQUAL pszCap ODsCZGeometries, ds)
   \<and> fst (TestCapability pszCap ds) =
       (map c_toupper pszCap \<in> {''CREATELAYER'', ''CURVEGEOMETRIES'', ''ZGEOMETRIES''})"
  by (simp add: TestCapability_def EQUAL_def ODsCCreateLayer_def ODsCCurveGeometries_def
      ODsCZGeometries_def c_toupper_def)

section \<open>Create and teardown: properties\<close>

lemma write_models_eq:
  "write_models fp ms ds = ds\<lparr>vsi_trace := vsi_trace ds @ map (\<lambda>it. VSIFPrintfL fp (model_entry it)) ms\<rparr>"
  by (induction ms arbitrary: ds) (simp_all add: vsi_def)

lemma write_headers_eq:
  "write_headers env fp ds =
     ds\<lparr>vsi_trace := vsi_trace ds
           @ map (VSIFPrintfL fp) (spec_opening_framing (release_name env) (poImdReader ds))\<rparr>"
  by (simp add: write_headers_def write_models_eq spec_opening_framing_def vsi_def Let_def comp_def)

lemma delete_trace:
  "vsi_trace (OGRILI2DataSource_delete ds) =
     vsi_trace ds @
       (case fpOutput ds of
          None \<Rightarrow> []
        | Some fp \<Rightarrow> map (VSIFPrintfL fp) (spec_closing_framing (poImdReader ds)) @ [VSIFCloseL fp])"
  by (simp add: OGRILI2DataSource_delete_def spec_closing_framing_def vsi_def Let_def split: option.splits)

lemma Create_no_model:
  "length (CSLTokenizeString2 f '','') \<le> 1 \<Longrightarrow>
   Create env f ds =
     (False, CPLError CE_Failure CPLE_AppDefined
        ''ILI2 Create(): model file not specified in destination filename.''
        (ds\<lparr>pszName := Some (CPLStrdup (csl_index (CSLTokenizeString2 f '','') 0))\<rparr>))"
  by (simp add: Create_def CSLCount_def Let_def)

lemma Create_open_branch:
  "(if out = ''/vsistdout/'' \<or> STARTS_WITH out ''/vsigzip/''
    then open_fpOutput env out ''wb'' ds1
    else if STARTS_WITH out ''/vsizip/''
    then (if EQUAL (CPLGetExtensionSafe out) ''zip''
          then open_fpOutput env (CPLFormFilenameSafe out ''out.xtf'') ''wb'' ds1
          else open_fpOutput env out ''wb'' ds1)
    else open_fpOutput env out ''wb+'' ds1)
   = open_fpOutput env (fst (output_path out)) (snd (output_path out)) ds1"
  by (simp add: output_path_def)

lemma Create_unfold:
  assumes "CSLTokenizeString2 f '','' = out # model # others"
  shows "Create env f ds =
     (let ds2 = open_fpOutput env (fst (output_path out)) (snd (output_path out))
                  (ds\<lparr>pszName := Some out\<rparr>)
      in case fpOutput ds2 of
           None \<Rightarrow>
             (False,
              CPLError CE_Failure CPLE_OpenFailed
                (''Failed to create XTF file '' @ CPLStrdup (pszName ds2) @ ''.'') ds2)
         | Some fp \<Rightarrow>
             (True,
              write_headers env fp
                (ds2\<lparr>poImdReader := ReadModel env model (poImdReader ds2)\<rparr>)))"
  unfolding Create_def Let_def Create_open_branch
  by (simp add: assms CSLCount_def csl_index_def CPLStrdup_def cong: option.case_cong)

lemma Create_with_model:
  assumes "CSLTokenizeString2 f '','' = out # model # others"
      and "output_path out = (path, mode)"
  shows "Create env f ds =
     (if file_writable env path mode
      then (True,
            ds\<lparr>pszName := Some path, fpOutput := Some path,
               poImdReader := ReadModel env model (poImdReader ds),
               vsi_trace := vsi_trace ds @ VSIFOpenL path mode
                  # map (VSIFPrintfL path)
                      (spec_opening_framing (release_name env) (ReadModel env model (poImdReader ds)))\<rparr>)
      else (False,
            CPLError CE_Failure CPLE_OpenFailed (''Failed to create XTF file '' @ path @ ''.'')
              (ds\<lparr>pszName := Some path, fpOutput := None,
                  vsi_trace := vsi_trace ds @ [VSIFOpenL path mode]\<rparr>)))"
proof (cases "file_writable env path mode")
  case True
  then show ?thesis
    by (simp add: Create_unfold [OF assms(1)] assms(2) open_fpOutput_def vsi_def write_headers_eq)
next
  case False
  then show ?thesis
    by (simp add: Create_unfold [OF assms(1)] assms(2) open_fpOutput_def vsi_def CPLStrdup_def
        CPLError_def)
qed

lemma suffix_rev_takeWhile: "suffix (rev (takeWhile P (rev xs))) xs"
proof -
  have "xs = rev (dropWhile P (rev xs)) @ rev (takeWhile P (rev xs))"
    by (metis rev_append rev_rev_ident takeWhile_dropWhile_id)
  then show ?thesis by (rule suffixI)
qed

lemma extension_suffix: "suffix (CPLGetExtensionSafe p) p"
proof -
  have 1: "suffix (CPLGetFilename p) p"
    by (simp add: CPLGetFilename_def suffix_rev_takeWhile)
  have 2: "suffix (drop 1 (CPLGetFilename p)) (CPLGetFilename p)"
    by (rule suffix_drop)
  have 3: "suffix (CPLGetExtensionSafe p) (drop 1 (CPLGetFilename p))"
    by (simp add: CPLGetExtensionSafe_def Let_def suffix_rev_takeWhile)
  from 3 2 1 show ?thesis by (meson suffix_order.trans)
qed

lemma suffix_last: "suffix e p \<Longrightarrow> e \<noteq> [] \<Longrightarrow> p \<noteq> [] \<and> last p = last e"
  by (auto simp add: suffix_def)

lemma STARTS_WITH_prefix: "STARTS_WITH a b = prefix b a"
  by (metis STARTS_WITH_def append_take_drop_id prefix_def append_eq_conv_conj)

lemma zip_extension_form:
  assumes "EQUAL (CPLGetExtensionSafe p) ''zip''"
  shows "CPLFormFilenameSafe p ''out.xtf'' = p @ ''/out.xtf''"
proof -
  let ?e = "CPLGetExtensionSafe p"
  from assms have up: "map c_toupper ?e = ''ZIP''"
    by (simp add: EQUAL_def c_toupper_def)
  then have ne: "?e \<noteq> []" by auto
  from up ne have "c_toupper (last ?e) = CHR ''P''"
    by (metis last_map last.simps list.distinct(1))
  then have nosep: "\<not> is_path_sep (last ?e)"
    by (auto simp add: is_path_sep_def BACKSLASH_def c_toupper_def)
  from suffix_last [OF extension_suffix ne] nosep
  show ?thesis by (simp add: CPLFormFilenameSafe_def)
qed

lemma opened_append: "opened (xs @ ys) = opened xs @ opened ys"
  by (induction xs rule: opened.induct) simp_all

lemma opened_writes: "opened (map (VSIFPrintfL fp) ls) = []"
  by (induction ls) simp_all

text \<open>
  Claim C4. When the comma-split of the address yields a single component, \<^verbatim>\<open>Create\<close>
  returns failure with one error of class failure and number \<^verbatim>\<open>CPLE_AppDefined\<close>
  (the model file is not specified), and makes no call of the file layer: the I/O trace is
  what it was, and the output stream is not touched.
\<close>

theorem Create_without_model:
  "length (CSLTokenizeString2 pszFilename '','') = 1 \<Longrightarrow>
   fst (Create env pszFilename ds) = False
   \<and> cpl_errors (snd (Create env pszFilename ds)) =
       cpl_errors ds @ [(CE_Failure, CPLE_AppDefined,
          ''ILI2 Create(): model file not specified in destination filename.'')]
   \<and> vsi_trace (snd (Create env pszFilename ds)) = vsi_trace ds
   \<and> fpOutput (snd (Create env pszFilename ds)) = fpOutput ds"
  by (simp add: Create_no_model CPLError_def)

text \<open>
  Claim C7. Let the address split into an output name and a model name. When the output
  name begins with \<^verbatim>\<open>/vsizip/\<close> and its extension is \<^verbatim>\<open>zip\<close>, the one file
  \<^verbatim>\<open>Create\<close> opens is the output name with \<^verbatim>\<open>/out.xtf\<close> appended. When the output
  name is not \<^verbatim>\<open>/vsistdout/\<close> and begins with neither \<^verbatim>\<open>/vsigzip/\<close> nor
  \<^verbatim>\<open>/vsizip/\<close>, the one file opened is the output name as it is, for reading and
  writing.
\<close>

theorem Create_output_path:
  assumes "CSLTokenizeString2 pszFilename '','' = out # model # others"
  shows "(STARTS_WITH out ''/vsizip/'' \<and> EQUAL (CPLGetExtensionSafe out) ''zip'' \<longrightarrow>
            opened (vsi_trace (snd (Create env pszFilename ds)))
              = opened (vsi_trace ds) @ [(out @ ''/out.xtf'', ''wb'')])
       \<and> (out \<noteq> ''/vsistdout/'' \<and> \<not> STARTS_WITH out ''/vsigzip/''
            \<and> \<not> STARTS_WITH out ''/vsizip/'' \<longrightarrow>
            opened (vsi_trace (snd (Create env pszFilename ds)))
              = opened (vsi_trace ds) @ [(out, ''wb+'')])"
proof (intro conjI impI)
  assume z: "STARTS_WITH out ''/vsizip/'' \<and> EQUAL (CPLGetExtensionSafe out) ''zip''"
  then have "out \<noteq> ''/vsistdout/''" "\<not> STARTS_WITH out ''/vsigzip/''"
    by (auto simp add: STARTS_WITH_prefix prefix_def)
  with z have "output_path out = (out @ ''/out.xtf'', ''wb'')"
    by (simp add: output_path_def zip_extension_form)
  from Create_with_model [OF assms this, of env ds]
  show "opened (vsi_trace (snd (Create env pszFilename ds)))
          = opened (vsi_trace ds) @ [(out @ ''/out.xtf'', ''wb'')]"
    by (simp add: opened_append opened_writes CPLError_def)
next
  assume "out \<noteq> ''/vsistdout/'' \<and> \<not> STARTS_WITH out ''/vsigzip/''
            \<and> \<not> STARTS_WITH out ''/vsizip/''"
  then have "output_path out = (out, ''wb+'')"
    by (simp add: output_path_def)
  from Create_with_model [OF assms this, of env ds]
  show "opened (vsi_trace (snd (Create env pszFilename ds)))
          = opened (vsi_trace ds) @ [(out, ''wb+'')]"
    by (simp add: opened_append opened_writes CPLError_def)
qed


theorem Create_without_model_witness:
  "length (CSLTokenizeString2 ''out.xtf'' '','') = 1
   \<and> fst (Create ex_env ''out.xtf'' ex_new) = False
   \<and> cpl_errors (snd (Create ex_env ''out.xtf'' ex_new)) =
       [(CE_Failure, CPLE_AppDefined,
          ''ILI2 Create(): model file not specified in destination filename.'')]
   \<and> vsi_trace (snd (Create ex_env ''out.xtf'' ex_new)) = []"
proof -
  have h: "length (CSLTokenizeString2 ''out.xtf'' '','') = 1"
    by (simp add: CSLTokenizeString2_def)
  from Create_without_model [OF h, of ex_env ex_new] h show ?thesis
    by (simp add: ex_new_def OGRILI2DataSource_new_def)
qed

theorem Create_output_path_witness:
  "CSLTokenizeString2 ''/vsizip/archive.zip,roads.imd'' '','' = [''/vsizip/archive.zip'', ''roads.imd'']
   \<and> STARTS_WITH ''/vsizip/archive.zip'' ''/vsizip/''
   \<and> EQUAL (CPLGetExtensionSafe ''/vsizip/archive.zip'') ''zip''
   \<and> opened (vsi_trace (snd (Create ex_env ''/vsizip/archive.zip,roads.imd'' ex_new)))
       = [(''/vsizip/archive.zip/out.xtf'', ''wb'')]
   \<and> CSLTokenizeString2 ''out.xtf,roads.imd'' '','' = [''out.xtf'', ''roads.imd'']
   \<and> \<not> STARTS_WITH ''out.xtf'' ''/vsigzip/'' \<and> \<not> STARTS_WITH ''out.xtf'' ''/vsizip/''
   \<and> opened (vsi_trace (snd (Create ex_env ''out.xtf,roads.imd'' ex_new)))
       = [(''out.xtf'', ''wb+'')]"
proof -
  have t1: "CSLTokenizeString2 ''/vsizip/archive.zip,roads.imd'' '','' = ''/vsizip/archive.zip'' # ''roads.imd'' # []"
    by (simp add: CSLTokenizeString2_def)
  have t2: "CSLTokenizeString2 ''out.xtf,roads.imd'' '','' = ''out.xtf'' # ''roads.imd'' # []"
    by (simp add: CSLTokenizeString2_def)
  have z: "STARTS_WITH ''/vsizip/archive.zip'' ''/vsizip/''
           \<and> EQUAL (CPLGetExtensionSafe ''/vsizip/archive.zip'') ''zip''"
    by (simp add: STARTS_WITH_def EQUAL_def CPLGetExtensionSafe_def CPLGetFilename_def
        is_path_sep_def BACKSLASH_def c_toupper_def)
  have n: "''out.xtf'' \<noteq> ''/vsistdout/'' \<and> \<not> STARTS_WITH ''out.xtf'' ''/vsigzip/''
           \<and> \<not> STARTS_WITH ''out.xtf'' ''/vsizip/''"
    by (simp add: STARTS_WITH_def)
  have e: "opened (vsi_trace ex_new) = []"
    by (simp add: ex_new_def OGRILI2DataSource_new_def)
  from Create_output_path [OF t1, of ex_env ex_new] Create_output_path [OF t2, of ex_env ex_new]
    t1 t2 z n e
  show ?thesis by simp
qed

lemma written_append: "written fp (xs @ ys) = written fp xs @ written fp ys"
  by (induction xs rule: written.induct) simp_all

lemma written_writes: "written fp (map (VSIFPrintfL fp) ls) = ls"
  by (induction ls) simp_all

lemma Create_success:
  assumes "Create env f ds0 = (True, ds)"
  obtains out model others path mode where
    "CSLTokenizeString2 f '','' = out # model # others"
    "output_path out = (path, mode)"
    "file_writable env path mode"
    "ds = ds0\<lparr>pszName := Some path, fpOutput := Some path,
             poImdReader := ReadModel env model (poImdReader ds0),
             vsi_trace := vsi_trace ds0 @ VSIFOpenL path mode
                # map (VSIFPrintfL path)
                    (spec_opening_framing (release_name env) (ReadModel env model (poImdReader ds0)))\<rparr>"
proof (cases "CSLTokenizeString2 f '',''")
  case Nil
  with assms Create_no_model [of f env ds0] show ?thesis by simp
next
  case (Cons out r)
  show ?thesis
  proof (cases r)
    case Nil
    with Cons assms Create_no_model [of f env ds0] show ?thesis by simp
  next
    case (Cons model others)
    with \<open>CSLTokenizeString2 f '','' = out # r\<close>
    have t: "CSLTokenizeString2 f '','' = out # model # others" by simp
    obtain path mode where o: "output_path out = (path, mode)" by (cases "output_path out")
    from Create_with_model [OF t o, of env ds0] assms that [OF t o] show ?thesis
      by (simp split: if_splits)
  qed
qed

section \<open>The calls between creation and teardown keep the stream and the catalog\<close>

lemma ICreateLayer_keeps:
  "vsi_trace (snd (ICreateLayer n g ds)) = vsi_trace ds"
  "fpOutput (snd (ICreateLayer n g ds)) = fpOutput ds"
  "poImdReader (snd (ICreateLayer n g ds)) = poImdReader ds"
  "listLayer (snd (ICreateLayer n g ds)) = listLayer ds"
  by (simp_all add: ICreateLayer_def CPLError_def Let_def split: option.splits)

lemma do_call_keeps:
  "vsi_trace (do_call c ds) = vsi_trace ds"
  "fpOutput (do_call c ds) = fpOutput ds"
  "poImdReader (do_call c ds) = poImdReader ds"
  "listLayer (do_call c ds) = listLayer ds"
  by (cases c; simp add: ICreateLayer_keeps TestCapability_def)+

lemma do_calls_keeps:
  "vsi_trace (do_calls cs ds) = vsi_trace ds"
  "fpOutput (do_calls cs ds) = fpOutput ds"
  "poImdReader (do_calls cs ds) = poImdReader ds"
  "listLayer (do_calls cs ds) = listLayer ds"
  by (induction cs arbitrary: ds; simp add: do_call_keeps)+

lemma delete_after_calls:
  "vsi_trace (OGRILI2DataSource_delete (do_calls cs ds)) =
     vsi_trace ds @
       (case fpOutput ds of
          None \<Rightarrow> []
        | Some fp \<Rightarrow> map (VSIFPrintfL fp) (spec_closing_framing (poImdReader ds)) @ [VSIFCloseL fp])"
  by (simp add: delete_trace do_calls_keeps cong: option.case_cong)

text \<open>
  Claim C1. Let \<^verbatim>\<open>Create\<close> succeed on a new data source, let the client then make any
  calls of the data-source interface (layers may be created; no feature is appended), and
  let the data source be torn down. The document written to the output file is then the
  prolog, the open tag of the transfer envelope, the header section with the list of
  models, one \<^verbatim>\<open>MODEL\<close> entry for each model descriptor of the catalog and in the
  catalog's order, the open tag of the data section, the open tag of the basket (named
  after the catalog's main basket, which is also its \<^verbatim>\<open>BID\<close>), directly followed by
  the basket's close tag, the close tag of the data section and the close tag of the
  envelope.
\<close>

theorem Create_teardown_document:
  assumes "Create env pszFilename (OGRILI2DataSource_new imd) = (True, ds)"
      and "fpOutput ds = Some fp"
      and "b = mainBasketName (poImdReader ds)"
  shows "written fp (vsi_trace (OGRILI2DataSource_delete (do_calls cs ds))) =
           [''<?xml version='' @ [CHR 0x22] @ ''1.0'' @ [CHR 0x22] @ '' encoding='' @ [CHR 0x22]
              @ ''utf-8'' @ [CHR 0x22] @ '' ?>\<newline>'',
            ''<TRANSFER xmlns='' @ [CHR 0x22] @ ''http://www.interlis.ch/INTERLIS2.3''
              @ [CHR 0x22] @ ''>\<newline>'',
            ''<HEADERSECTION SENDER='' @ [CHR 0x22] @ ''OGR/GDAL '' @ release_name env
              @ [CHR 0x22] @ '' VERSION='' @ [CHR 0x22] @ ''2.3'' @ [CHR 0x22] @ ''>\<newline>'',
            ''<MODELS>\<newline>'']
             @ map (\<lambda>it. ''<MODEL NAME='' @ [CHR 0x22] @ name it @ [CHR 0x22]
                        @ '' URI='' @ [CHR 0x22] @ uri it @ [CHR 0x22]
                        @ '' VERSION='' @ [CHR 0x22] @ version it @ [CHR 0x22] @ ''/>\<newline>'')
                 (modelInfos (poImdReader ds))
             @ [''</MODELS>\<newline>'', ''</HEADERSECTION>\<newline>'', ''<DATASECTION>\<newline>'',
                ''<'' @ b @ '' BID='' @ [CHR 0x22] @ b @ [CHR 0x22] @ ''>\<newline>'',
                ''</'' @ b @ ''>\<newline>'',
                ''</DATASECTION>\<newline>'', ''</TRANSFER>\<newline>'']"
proof -
  from assms(1) obtain out model others path mode where
    "CSLTokenizeString2 pszFilename '','' = out # model # others"
    "output_path out = (path, mode)"
    "file_writable env path mode" and
    ds: "ds = (OGRILI2DataSource_new imd)\<lparr>pszName := Some path, fpOutput := Some path,
             poImdReader := ReadModel env model (poImdReader (OGRILI2DataSource_new imd)),
             vsi_trace := vsi_trace (OGRILI2DataSource_new imd) @ VSIFOpenL path mode
                # map (VSIFPrintfL path)
                    (spec_opening_framing (release_name env)
                       (ReadModel env model (poImdReader (OGRILI2DataSource_new imd))))\<rparr>"
    by (rule Create_success)
  from ds assms(2) have fp: "path = fp" by simp
  from ds have tr: "vsi_trace ds = VSIFOpenL fp mode
      # map (VSIFPrintfL fp) (spec_opening_framing (release_name env) (poImdReader ds))"
    by (simp add: fp OGRILI2DataSource_new_def)
  have "written fp (vsi_trace (OGRILI2DataSource_delete (do_calls cs ds)))
          = spec_opening_framing (release_name env) (poImdReader ds)
            @ spec_closing_framing (poImdReader ds)"
    by (simp add: delete_after_calls assms(2) tr written_append written_writes)
  then show ?thesis
    by (simp add: spec_opening_framing_def spec_closing_framing_def assms(3) xml_prolog_def
        transfer_open_def headersection_open_def model_entry_def basket_open_def
        basket_close_def DQ_def)
qed

section \<open>The closing framing\<close>

lemma opening_no_footer:
  "filter is_footer_write (map (VSIFPrintfL fp) (spec_opening_framing release imd)) = []"
proof -
  have b: "basket_open b \<noteq> ''</DATASECTION>\<newline>'' \<and> basket_open b \<noteq> ''</TRANSFER>\<newline>''" for b
  proof -
    have "CHR '' '' \<in> set (basket_open b)" by (simp add: basket_open_def)
    moreover have "CHR '' '' \<notin> set ''</DATASECTION>\<newline>''" "CHR '' '' \<notin> set ''</TRANSFER>\<newline>''"
      by simp_all
    ultimately show ?thesis by metis
  qed
  have m: "filter is_footer_write (map (VSIFPrintfL fp \<circ> model_entry) ms) = []" for ms
    by (induction ms) (simp_all add: model_entry_def)
  show ?thesis
    by (simp add: spec_opening_framing_def m b xml_prolog_def transfer_open_def
        headersection_open_def)
qed

lemma Create_failure:
  assumes "Create env f ds0 = (False, ds)" and "fpOutput ds0 = None"
  shows "fpOutput ds = None
         \<and> filter is_footer_write (vsi_trace ds) = filter is_footer_write (vsi_trace ds0)"
proof (cases "length (CSLTokenizeString2 f '','') \<le> 1")
  case True
  from Create_no_model [OF True, of env ds0] assms show ?thesis
    by (auto simp add: CPLError_def)
next
  case False
  then obtain out model others where t: "CSLTokenizeString2 f '','' = out # model # others"
    by (cases "CSLTokenizeString2 f '',''"; simp; metis list.exhaust)
  obtain path mode where o: "output_path out = (path, mode)" by (cases "output_path out")
  from Create_with_model [OF t o, of env ds0] assms show ?thesis
    by (auto simp add: CPLError_def split: if_splits)
qed

lemma Open_keeps:
  "fpOutput (snd (Open env n opts t ds)) = fpOutput ds"
  "written fp (vsi_trace (snd (Open env n opts t ds))) = written fp (vsi_trace ds)"
  "filter is_footer_write (vsi_trace (snd (Open env n opts t ds))) = filter is_footer_write (vsi_trace ds)"
  by (simp_all add: Open_def Let_def vsi_def CPLError_def written_append
      split: option.splits prod.splits)


text \<open>
  Claim C6. For a new data source on which \<^verbatim>\<open>Create\<close> is called: no call before
  teardown writes a close tag of the data section or of the envelope; when \<^verbatim>\<open>Create\<close>
  succeeded the output stream is held, the opening framing has been written to it, and
  teardown appends the close tags of basket, data section and envelope, once and in this
  order, and closes the stream; when \<^verbatim>\<open>Create\<close> failed the stream is not held and
  teardown adds nothing to the trace. For a new data source on which \<^verbatim>\<open>Open\<close> is
  called, whatever its result, the stream is not held, nothing is ever written, and
  teardown adds nothing to the trace.
\<close>

theorem footer_only_at_teardown:
  "(Create env pszFilename (OGRILI2DataSource_new imd) = (ok, ds) \<longrightarrow>
      filter is_footer_write (vsi_trace (do_calls cs ds)) = []
      \<and> (ok \<longrightarrow>
           (\<exists>fp. fpOutput ds = Some fp
              \<and> written fp (vsi_trace ds) = spec_opening_framing (release_name env) (poImdReader ds)
              \<and> vsi_trace (OGRILI2DataSource_delete (do_calls cs ds)) =
                  vsi_trace ds @ map (VSIFPrintfL fp) (spec_closing_framing (poImdReader ds))
                    @ [VSIFCloseL fp]))
      \<and> (\<not> ok \<longrightarrow>
           fpOutput ds = None
           \<and> vsi_trace (OGRILI2DataSource_delete (do_calls cs ds)) = vsi_trace ds))
   \<and> (Open env pszNewName opts bTestOpen (OGRILI2DataSource_new imd) = (ok', ds') \<longrightarrow>
        fpOutput ds' = None
        \<and> vsi_trace (OGRILI2DataSource_delete (do_calls cs' ds')) = vsi_trace ds'
        \<and> written fp' (vsi_trace ds') = [])"
proof (intro conjI impI)
  assume c: "Create env pszFilename (OGRILI2DataSource_new imd) = (ok, ds)"
  show "filter is_footer_write (vsi_trace (do_calls cs ds)) = []"
  proof (cases ok)
    case True
    with c obtain out model others path mode where
      "CSLTokenizeString2 pszFilename '','' = out # model # others"
      "output_path out = (path, mode)"
      "file_writable env path mode" and
      ds: "ds = (OGRILI2DataSource_new imd)\<lparr>pszName := Some path, fpOutput := Some path,
             poImdReader := ReadModel env model (poImdReader (OGRILI2DataSource_new imd)),
             vsi_trace := vsi_trace (OGRILI2DataSource_new imd) @ VSIFOpenL path mode
                # map (VSIFPrintfL path)
                    (spec_opening_framing (release_name env)
                       (ReadModel env model (poImdReader (OGRILI2DataSource_new imd))))\<rparr>"
      by (auto elim: Create_success)
    then show ?thesis
      by (simp add: do_calls_keeps OGRILI2DataSource_new_def opening_no_footer)
  next
    case False
    with c Create_failure [of env pszFilename "OGRILI2DataSource_new imd" ds]
    show ?thesis by (simp add: do_calls_keeps OGRILI2DataSource_new_def)
  qed
next
  assume c: "Create env pszFilename (OGRILI2DataSource_new imd) = (ok, ds)" and ok
  then obtain out model others path mode where
      "CSLTokenizeString2 pszFilename '','' = out # model # others"
      "output_path out = (path, mode)"
      "file_writable env path mode" and
      ds: "ds = (OGRILI2DataSource_new imd)\<lparr>pszName := Some path, fpOutput := Some path,
             poImdReader := ReadModel env model (poImdReader (OGRILI2DataSource_new imd)),
             vsi_trace := vsi_trace (OGRILI2DataSource_new imd) @ VSIFOpenL path mode
                # map (VSIFPrintfL path)
                    (spec_opening_framing (release_name env)
                       (ReadModel env model (poImdReader (OGRILI2DataSource_new imd))))\<rparr>"
    by (auto elim: Create_success)
  from ds have "fpOutput ds = Some path"
    and "written path (vsi_trace ds) = spec_opening_framing (release_name env) (poImdReader ds)"
    by (simp_all add: OGRILI2DataSource_new_def written_writes)
  moreover from this(1) have "vsi_trace (OGRILI2DataSource_delete (do_calls cs ds)) =
       vsi_trace ds @ map (VSIFPrintfL path) (spec_closing_framing (poImdReader ds))
         @ [VSIFCloseL path]"
    by (simp add: delete_after_calls)
  ultimately show "\<exists>fp. fpOutput ds = Some fp
      \<and> written fp (vsi_trace ds) = spec_opening_framing (release_name env) (poImdReader ds)
      \<and> vsi_trace (OGRILI2DataSource_delete (do_calls cs ds)) =
          vsi_trace ds @ map (VSIFPrintfL fp) (spec_closing_framing (poImdReader ds))
            @ [VSIFCloseL fp]"
    by blast
next
  assume c: "Create env pszFilename (OGRILI2DataSource_new imd) = (ok, ds)" and "\<not> ok"
  with Create_failure [of env pszFilename "OGRILI2DataSource_new imd" ds]
  show f: "fpOutput ds = None" by (simp add: OGRILI2DataSource_new_def)
  then show "vsi_trace (OGRILI2DataSource_delete (do_calls cs ds)) = vsi_trace ds"
    by (simp add: delete_after_calls)
next
  assume o: "Open env pszNewName opts bTestOpen (OGRILI2DataSource_new imd) = (ok', ds')"
  then have ds': "ds' = snd (Open env pszNewName opts bTestOpen (OGRILI2DataSource_new imd))"
    by simp
  show f: "fpOutput ds' = None"
    by (simp add: ds' Open_keeps OGRILI2DataSource_new_def)
  then show "vsi_trace (OGRILI2DataSource_delete (do_calls cs' ds')) = vsi_trace ds'"
    by (simp add: delete_after_calls)
  show "written fp' (vsi_trace ds') = []"
    by (simp add: ds' Open_keeps OGRILI2DataSource_new_def)
qed

text \<open>
  Claim C5. Let \<^verbatim>\<open>Create\<close> have succeeded, with any calls of the interface since, and
  let the layer name have no table definition in the catalog. Then \<^verbatim>\<open>ICreateLayer\<close>
  returns a layer (not null) whose schema bears the layer name, has no attribute field
  and has as only geometry field one of the requested type, or none when no geometry
  descriptor is given (or its type is \<^verbatim>\<open>wkbNone\<close>). The layer is appended to the array
  of layers, one warning (class \<^verbatim>\<open>CE_Warning\<close>, so not a failure) is logged, the output
  stream is still held, and nothing is written or closed.
\<close>

theorem ICreateLayer_adhoc:
  assumes "Create env pszFilename ds0 = (True, dsw)"
      and "ds = do_calls cs dsw"
      and "GetTableDefnRef (GetFeatureDefnInfo (poImdReader ds) pszLayerName) = None"
      and "eType = (case poGeomFieldDefn of Some g \<Rightarrow> GetType g | None \<Rightarrow> wkbNone)"
      and "ICreateLayer pszLayerName poGeomFieldDefn ds = (res, ds')"
  shows "(\<exists>poLayer. res = Some poLayer
            \<and> poFeatureDefn poLayer =
                \<lparr>pszFeatureClassName = pszLayerName, apoFieldDefn = [],
                 apoGeomFieldDefn =
                   (if eType = wkbNone then [] else [\<lparr>pszGeomName = [], eGeomType = eType\<rparr>])\<rparr>
            \<and> papoLayers ds' = papoLayers ds @ [poLayer])
         \<and> nLayers ds' = nLayers ds + 1
         \<and> cpl_errors ds' =
             cpl_errors ds @ [(CE_Warning, CPLE_AppDefined, adhoc_warning pszLayerName)]
         \<and> fpOutput ds' = fpOutput ds \<and> fpOutput ds \<noteq> None
         \<and> vsi_trace ds' = vsi_trace ds \<and> listLayer ds' = listLayer ds
         \<and> poImdReader ds' = poImdReader ds"
proof -
  from assms(1) have "fpOutput dsw \<noteq> None" by (auto elim: Create_success)
  with assms(2) have held: "fpOutput ds \<noteq> None" by (simp add: do_calls_keeps)
  with assms(3,4,5) show ?thesis
    by (auto simp add: ICreateLayer_def Let_def CPLError_def OGRILI2Layer_new_def SetGeomType_def
        OGRFeatureDefn_new_def)
qed

text \<open>
  Claim C9. When the address resolves to a data file and that file cannot be opened for
  reading, \<^verbatim>\<open>Open\<close> returns failure; it logs one error, of number
  \<^verbatim>\<open>CPLE_OpenFailed\<close>, when the call is trusted, and logs nothing when it is probing.
\<close>

theorem Open_unreadable:
  assumes "Open_filenames pszNewName opts = Some (osBasename, osModelFilename)"
      and "file_content env osBasename = None"
  shows "fst (Open env pszNewName opts bTestOpen ds) = False
         \<and> cpl_errors (snd (Open env pszNewName opts bTestOpen ds)) =
             cpl_errors ds
               @ (if bTestOpen then []
                  else [(CE_Failure, CPLE_OpenFailed, open_failed_msg pszNewName)])"
  using assms by (simp add: Open_def Let_def vsi_def CPLError_def)


section \<open>The probe of Open\<close>

lemma strstr_sublist: "strstr haystack needle = sublist needle haystack"
  by (induction haystack) (simp_all add: STARTS_WITH_prefix sublist_Cons_right)

lemma c_str_snoc_NUL: "c_str (xs @ [NUL]) = c_str xs"
  by (induction xs) (simp_all add: c_str_def)

lemma szHeader_c_str: "c_str (szHeader_of content) = c_str (take 999 content)"
proof (cases "length (take 1000 content) = 1000")
  case True
  then have "(take 1000 content)[999 := NUL] = take 999 content @ [NUL]"
    by (auto simp add: list_eq_iff_nth_eq nth_list_update nth_append)
  with True show ?thesis by (simp add: szHeader_of_def Let_def c_str_snoc_NUL)
next
  case False
  then have "length content < 1000" by auto
  then have "take 1000 content = content" "take 999 content = content" by simp_all
  with False show ?thesis by (simp add: szHeader_of_def Let_def c_str_snoc_NUL)
qed

lemma szHeader_first:
  "(szHeader_of content ! 0 = CHR ''<'') = (\<exists>rest. content = CHR ''<'' # rest)"
proof (cases content)
  case Nil
  then show ?thesis by (simp add: szHeader_of_def NUL_def)
next
  case (Cons c cs)
  then show ?thesis by (simp add: szHeader_of_def Let_def nth_append)
qed

lemma header_rejected_iff:
  "header_rejected (szHeader_of content) =
     (\<not> ((\<exists>rest. content = CHR ''<'' # rest)
         \<and> sublist ''interlis.ch/INTERLIS2'' (c_str (take 999 content))))"
  unfolding header_rejected_def szHeader_c_str strstr_sublist szHeader_first by blast

text \<open>
  Claim C3, amended. In probing mode, for a data file that opens, \<^verbatim>\<open>Open\<close> takes the
  file as a format match if and only if the first byte of the file is \<^verbatim>\<open><\<close> and the
  header string (the first 999 bytes of the file, up to the first NUL byte) contains
  \<^verbatim>\<open>interlis.ch/INTERLIS2\<close>; on a match \<^verbatim>\<open>Open\<close> succeeds exactly when the transfer
  reader can be instantiated. On a non-match it returns failure, logs no error, and has
  opened, read and closed the file.
\<close>

theorem Open_probe_first_byte:
  assumes "Open_filenames pszNewName opts = Some (osBasename, osModelFilename)"
      and "file_content env osBasename = Some content"
      and "is_match = ((\<exists>rest. content = CHR ''<'' # rest)
                       \<and> sublist ''interlis.ch/INTERLIS2'' (c_str (take 999 content)))"
  shows "fst (Open env pszNewName opts True ds) = (is_match \<and> reader_available env)
         \<and> (\<not> is_match \<longrightarrow>
               cpl_errors (snd (Open env pszNewName opts True ds)) = cpl_errors ds
               \<and> vsi_trace (snd (Open env pszNewName opts True ds)) =
                   vsi_trace ds @ [VSIFOpenL osBasename ''r'', VSIFReadL osBasename 1000,
                                   VSIFCloseL osBasename])"
proof -
  from assms(3) have r: "header_rejected (szHeader_of content) = (\<not> is_match)"
    by (simp add: header_rejected_iff)
  show ?thesis
    by (cases is_match) (simp_all add: Open_def assms(1,2) r Let_def vsi_def CPLError_def)
qed

text \<open>
  Claim C2, amended. After a successful \<^verbatim>\<open>Open\<close>, with any calls of the interface
  since, let \<open>K\<close> be the number of layers the transfer reader found. Lookup by an index
  \<open>i\<close> with \<open>0 \<le> i < K\<close> returns the layer found at position \<open>i\<close> (with its read cursor
  reset), and lookup by an index \<open>i \<ge> K\<close> returns null.
\<close>

theorem GetLayer_discovered:
  assumes "Open env pszNewName opts bTestOpen ds0 = (True, ds)"
      and "Open_filenames pszNewName opts = Some (osBasename, osModelFilename)"
      and "found = map ResetReading (reader_layers env osBasename osModelFilename)"
  shows "listLayer ds = found
         \<and> (0 \<le> i \<and> i < int (length found) \<longrightarrow>
               GetLayer (do_calls cs ds) i = Some (found ! nat i))
         \<and> (int (length found) \<le> i \<longrightarrow> GetLayer (do_calls cs ds) i = None)"
proof -
  from assms have "listLayer ds = found"
    by (auto simp add: Open_def Let_def split: option.splits if_splits)
  then show ?thesis by (simp add: GetLayer_eq do_calls_keeps)
qed

section \<open>The concrete containers, evaluated\<close>

lemma ex_tokens: "CSLTokenizeString2 ''out.xtf,roads.imd'' '','' = ''out.xtf'' # ''roads.imd'' # []"
  by (simp add: CSLTokenizeString2_def)

lemma ex_output_path: "output_path ''out.xtf'' = (''out.xtf'', ''wb+'')"
  by (simp add: output_path_def STARTS_WITH_def)

lemma ex_Create_value:
  "Create ex_env ''out.xtf,roads.imd'' ex_new =
     (True,
      ex_new\<lparr>pszName := Some ''out.xtf'', fpOutput := Some ''out.xtf'',
             poImdReader := ex_catalog,
             vsi_trace := VSIFOpenL ''out.xtf'' ''wb+''
                # map (VSIFPrintfL ''out.xtf'') (spec_opening_framing ''3.11.0'' ex_catalog)\<rparr>)"
proof -
  have w: "file_writable ex_env ''out.xtf'' ''wb+''"
    by (simp add: ex_env_def STARTS_WITH_def)
  have e: "ReadModel ex_env ''roads.imd'' (poImdReader ex_new) = ex_catalog"
    "release_name ex_env = ''3.11.0''" "vsi_trace ex_new = []"
    by (simp_all add: ex_env_def ex_new_def OGRILI2DataSource_new_def)
  show ?thesis
    by (simp add: Create_with_model [OF ex_tokens ex_output_path] w e)
qed

lemma ex_Create: "Create ex_env ''out.xtf,roads.imd'' ex_new = (True, ex_written)"
  by (simp add: ex_written_def ex_Create_value)

lemma ex_written_fields:
  "fpOutput ex_written = Some ''out.xtf''"
  "poImdReader ex_written = ex_catalog"
  "cpl_errors ex_written = []"
  "papoLayers ex_written = []"
  "nLayers ex_written = 0"
  "listLayer ex_written = []"
  "vsi_trace ex_written = VSIFOpenL ''out.xtf'' ''wb+''
      # map (VSIFPrintfL ''out.xtf'') (spec_opening_framing ''3.11.0'' ex_catalog)"
  unfolding ex_written_def ex_Create_value
  by (simp_all add: ex_new_def OGRILI2DataSource_new_def)

lemma ex_Open_value:
  "Open ex_env ''sample.xtf'' [] True ex_new =
     (True,
      ex_new\<lparr>pszName := Some ''sample.xtf'', poReader := True,
             listLayer := [ResetReading ex_street_layer],
             vsi_trace := [VSIFOpenL ''sample.xtf'' ''r'', VSIFReadL ''sample.xtf'' 1000,
                           VSIFCloseL ''sample.xtf'']\<rparr>)"
  by (simp add: ex_new_def ex_env_def ex_xtf_def Open_def Open_filenames_def
      CSLTokenizeString2_def CSLCount_def OGRILI2DataSource_new_def vsi_def
      header_rejected_def szHeader_of_def c_str_def NUL_def STARTS_WITH_def)

lemma ex_Open: "Open ex_env ''sample.xtf'' [] True ex_new = (True, ex_read)"
  by (simp add: ex_read_def ex_Open_value)

lemma ex_filenames:
  "Open_filenames ''sample.xtf'' [] = Some (''sample.xtf'', [])"
  "Open_filenames ''padded.xtf'' [] = Some (''padded.xtf'', [])"
  "Open_filenames ''missing.xtf'' [] = Some (''missing.xtf'', [])"
  by (simp_all add: Open_filenames_def CSLTokenizeString2_def CSLCount_def)

theorem Create_teardown_document_witness:
  "Create ex_env ''out.xtf,roads.imd'' (OGRILI2DataSource_new ex_imd_new) = (True, ex_written)
   \<and> fpOutput ex_written = Some ''out.xtf''
   \<and> mainBasketName (poImdReader ex_written) = ''Roads.Net''
   \<and> length (modelInfos (poImdReader ex_written)) = 2
   \<and> written ''out.xtf''
        (vsi_trace (OGRILI2DataSource_delete (do_calls [CallICreateLayer ''Adhoc'' None] ex_written)))
       = [''<?xml version='' @ [CHR 0x22] @ ''1.0'' @ [CHR 0x22] @ '' encoding='' @ [CHR 0x22]
            @ ''utf-8'' @ [CHR 0x22] @ '' ?>\<newline>'',
          ''<TRANSFER xmlns='' @ [CHR 0x22] @ ''http://www.interlis.ch/INTERLIS2.3''
            @ [CHR 0x22] @ ''>\<newline>'',
          ''<HEADERSECTION SENDER='' @ [CHR 0x22] @ ''OGR/GDAL 3.11.0'' @ [CHR 0x22]
            @ '' VERSION='' @ [CHR 0x22] @ ''2.3'' @ [CHR 0x22] @ ''>\<newline>'',
          ''<MODELS>\<newline>'',
          ''<MODEL NAME='' @ [CHR 0x22] @ ''Units'' @ [CHR 0x22]
            @ '' URI='' @ [CHR 0x22] @ ''http://www.interlis.ch/models'' @ [CHR 0x22]
            @ '' VERSION='' @ [CHR 0x22] @ ''2012-02-20'' @ [CHR 0x22] @ ''/>\<newline>'',
          ''<MODEL NAME='' @ [CHR 0x22] @ ''Roads'' @ [CHR 0x22]
            @ '' URI='' @ [CHR 0x22] @ ''http://example.org/roads'' @ [CHR 0x22]
            @ '' VERSION='' @ [CHR 0x22] @ ''1'' @ [CHR 0x22] @ ''/>\<newline>'',
          ''</MODELS>\<newline>'', ''</HEADERSECTION>\<newline>'', ''<DATASECTION>\<newline>'',
          ''<Roads.Net BID='' @ [CHR 0x22] @ ''Roads.Net'' @ [CHR 0x22] @ ''>\<newline>'',
          ''</Roads.Net>\<newline>'',
          ''</DATASECTION>\<newline>'', ''</TRANSFER>\<newline>'']"
proof -
  have c: "Create ex_env ''out.xtf,roads.imd'' (OGRILI2DataSource_new ex_imd_new) = (True, ex_written)"
    using ex_Create by (simp add: ex_new_def)
  have r: "release_name ex_env = ''3.11.0''" by (simp add: ex_env_def)
  have b: "''Roads.Net'' = mainBasketName (poImdReader ex_written)"
    by (simp add: ex_written_fields(2) ex_catalog_def)
  have n: "length (modelInfos (poImdReader ex_written)) = 2"
    by (simp add: ex_written_fields(2) ex_catalog_def)
  from Create_teardown_document [OF c ex_written_fields(1) b, of "[CallICreateLayer ''Adhoc'' None]"]
    c ex_written_fields(1) b [symmetric] n
  show ?thesis by (simp add: ex_written_fields(2) r ex_catalog_def)
qed

lemma ex_failed_value:
  "Create ex_env ''out.xtf'' (OGRILI2DataSource_new ex_imd_new) = (False, ex_failed)"
  "vsi_trace ex_failed = []"
proof -
  have h: "length (CSLTokenizeString2 ''out.xtf'' '','') \<le> 1"
    by (simp add: CSLTokenizeString2_def)
  show "Create ex_env ''out.xtf'' (OGRILI2DataSource_new ex_imd_new) = (False, ex_failed)"
    by (simp add: ex_failed_def ex_new_def Create_no_model [OF h])
  show "vsi_trace ex_failed = []"
    unfolding ex_failed_def Create_no_model [OF h]
    by (simp add: CPLError_def ex_new_def OGRILI2DataSource_new_def)
qed

theorem footer_only_at_teardown_witness:
  "Create ex_env ''out.xtf,roads.imd'' (OGRILI2DataSource_new ex_imd_new) = (True, ex_written)
   \<and> vsi_trace (OGRILI2DataSource_delete (do_calls [CallICreateLayer ''Adhoc'' None] ex_written)) =
       vsi_trace ex_written
         @ [VSIFPrintfL ''out.xtf'' ''</Roads.Net>\<newline>'',
            VSIFPrintfL ''out.xtf'' ''</DATASECTION>\<newline>'',
            VSIFPrintfL ''out.xtf'' ''</TRANSFER>\<newline>'',
            VSIFCloseL ''out.xtf'']
   \<and> filter is_footer_write (vsi_trace (do_calls [CallICreateLayer ''Adhoc'' None] ex_written)) = []
   \<and> Create ex_env ''out.xtf'' (OGRILI2DataSource_new ex_imd_new) = (False, ex_failed)
   \<and> vsi_trace (OGRILI2DataSource_delete (do_calls [] ex_failed)) = []
   \<and> Open ex_env ''sample.xtf'' [] True (OGRILI2DataSource_new ex_imd_new) = (True, ex_read)
   \<and> vsi_trace (OGRILI2DataSource_delete (do_calls [CallGetLayer 0] ex_read)) = vsi_trace ex_read"
proof -
  have c: "Create ex_env ''out.xtf,roads.imd'' (OGRILI2DataSource_new ex_imd_new) = (True, ex_written)"
    using ex_Create by (simp add: ex_new_def)
  have o: "Open ex_env ''sample.xtf'' [] True (OGRILI2DataSource_new ex_imd_new) = (True, ex_read)"
    using ex_Open by (simp add: ex_new_def)
  note w = footer_only_at_teardown [of ex_env "''out.xtf,roads.imd''" ex_imd_new True ex_written
      "[CallICreateLayer ''Adhoc'' None]" "''sample.xtf''" "[]" True True ex_read "[CallGetLayer 0]"
      "''out.xtf''"]
  note f = footer_only_at_teardown [of ex_env "''out.xtf''" ex_imd_new False ex_failed
      "[]" "''sample.xtf''" "[]" True True ex_read "[CallGetLayer 0]" "''out.xtf''"]
  from w c o have 1:
    "vsi_trace (OGRILI2DataSource_delete (do_calls [CallICreateLayer ''Adhoc'' None] ex_written)) =
       vsi_trace ex_written
         @ map (VSIFPrintfL ''out.xtf'') (spec_closing_framing (poImdReader ex_written))
         @ [VSIFCloseL ''out.xtf'']"
    and 2: "filter is_footer_write (vsi_trace (do_calls [CallICreateLayer ''Adhoc'' None] ex_written)) = []"
    and 3: "vsi_trace (OGRILI2DataSource_delete (do_calls [CallGetLayer 0] ex_read)) = vsi_trace ex_read"
    by (simp_all add: ex_written_fields(1))
  from f ex_failed_value have 4: "vsi_trace (OGRILI2DataSource_delete (do_calls [] ex_failed)) = []"
    by simp
  from 1 have 5:
    "vsi_trace (OGRILI2DataSource_delete (do_calls [CallICreateLayer ''Adhoc'' None] ex_written)) =
       vsi_trace ex_written
         @ [VSIFPrintfL ''out.xtf'' ''</Roads.Net>\<newline>'',
            VSIFPrintfL ''out.xtf'' ''</DATASECTION>\<newline>'',
            VSIFPrintfL ''out.xtf'' ''</TRANSFER>\<newline>'',
            VSIFCloseL ''out.xtf'']"
    by (simp add: ex_written_fields(2) spec_closing_framing_def ex_catalog_def basket_close_def)
  from c 5 2 ex_failed_value(1) 4 o 3 show ?thesis by blast
qed

theorem ICreateLayer_adhoc_witness:
  "Create ex_env ''out.xtf,roads.imd'' ex_new = (True, ex_written)
   \<and> GetTableDefnRef (GetFeatureDefnInfo (poImdReader ex_written) ''Adhoc'') = None
   \<and> map_option poFeatureDefn (fst (ICreateLayer ''Adhoc'' (Some ex_point) ex_written)) =
       Some \<lparr>pszFeatureClassName = ''Adhoc'', apoFieldDefn = [],
             apoGeomFieldDefn = [\<lparr>pszGeomName = [], eGeomType = 1\<rparr>]\<rparr>
   \<and> cpl_errors (snd (ICreateLayer ''Adhoc'' (Some ex_point) ex_written)) =
       [(CE_Warning, CPLE_AppDefined, adhoc_warning ''Adhoc'')]
   \<and> fpOutput (snd (ICreateLayer ''Adhoc'' (Some ex_point) ex_written)) = Some ''out.xtf''
   \<and> nLayers (snd (ICreateLayer ''Adhoc'' (Some ex_point) ex_written)) = 1"
proof -
  have a: "ex_written = do_calls [] ex_written" by simp
  have b: "GetTableDefnRef (GetFeatureDefnInfo (poImdReader ex_written) ''Adhoc'') = None"
    by (simp add: ex_written_fields(2) ex_catalog_def GetTableDefnRef_def EQUAL_def
        ex_no_table_def)
  have t: "(1::int) = (case Some ex_point of Some g \<Rightarrow> GetType g | None \<Rightarrow> wkbNone)"
    by (simp add: ex_point_def GetType_def)
  have p: "ICreateLayer ''Adhoc'' (Some ex_point) ex_written =
             (fst (ICreateLayer ''Adhoc'' (Some ex_point) ex_written),
              snd (ICreateLayer ''Adhoc'' (Some ex_point) ex_written))"
    by simp
  from ICreateLayer_adhoc [OF ex_Create a b t p] ex_Create b
  show ?thesis
    by (auto simp add: ex_written_fields wkbNone_def)
qed

theorem Open_unreadable_witness:
  "Open_filenames ''missing.xtf'' [] = Some (''missing.xtf'', [])
   \<and> file_content ex_env ''missing.xtf'' = None
   \<and> fst (Open ex_env ''missing.xtf'' [] True ex_new) = False
   \<and> cpl_errors (snd (Open ex_env ''missing.xtf'' [] True ex_new)) = []
   \<and> fst (Open ex_env ''missing.xtf'' [] False ex_new) = False
   \<and> cpl_errors (snd (Open ex_env ''missing.xtf'' [] False ex_new)) =
       [(CE_Failure, CPLE_OpenFailed, open_failed_msg ''missing.xtf'')]"
proof -
  have n: "file_content ex_env ''missing.xtf'' = None" by (simp add: ex_env_def)
  have e: "cpl_errors ex_new = []" by (simp add: ex_new_def OGRILI2DataSource_new_def)
  from Open_unreadable [OF ex_filenames(3) n, of True ex_new]
    Open_unreadable [OF ex_filenames(3) n, of False ex_new] ex_filenames(3) n e
  show ?thesis by simp
qed

lemma ex_adhoc_absent: "GetFeatureDefnInfo ex_catalog ''Adhoc'' = ex_no_table"
  by (simp add: ex_catalog_def EQUAL_def)

lemma ex_created_value:
  "ICreateLayer ''Adhoc'' None ex_written =
     (Some ex_adhoc_layer,
      ex_written\<lparr>cpl_errors := [(CE_Warning, CPLE_AppDefined, adhoc_warning ''Adhoc'')],
                 nLayers := 1, papoLayers := [ex_adhoc_layer]\<rparr>)"
  by (simp add: ICreateLayer_def Let_def ex_written_fields ex_adhoc_absent ex_no_table_def
      GetTableDefnRef_def ex_adhoc_layer_def OGRILI2Layer_new_def SetGeomType_def
      OGRFeatureDefn_new_def CPLError_def)

text \<open>
  Claim C2 as stated fails for a layer made by layer creation: after a successful
  \<^verbatim>\<open>Create\<close> and one \<^verbatim>\<open>ICreateLayer\<close> the array of layers holds one layer, and the
  lookup by index \<open>0\<close> returns null, since it walks the list of the layers found at open.
\<close>

theorem GetLayer_created_counterexample:
  "Create ex_env ''out.xtf,roads.imd'' ex_new = (True, ex_written)
   \<and> ICreateLayer ''Adhoc'' None ex_written = (Some ex_adhoc_layer, ex_created)
   \<and> papoLayers ex_created = [ex_adhoc_layer]
   \<and> nLayers ex_created = 1
   \<and> GetLayer ex_created 0 = None"
proof -
  have 1: "ICreateLayer ''Adhoc'' None ex_written = (Some ex_adhoc_layer, ex_created)"
    by (simp add: ex_created_def ex_created_value)
  have 2: "papoLayers ex_created = [ex_adhoc_layer]" "nLayers ex_created = 1"
    "listLayer ex_created = []"
    unfolding ex_created_def ex_created_value
    by (simp_all add: ex_written_fields)
  from 2(3) have 3: "GetLayer ex_created 0 = None" by (simp add: GetLayer_def)
  from ex_Create 1 2 3 show ?thesis by simp
qed

theorem GetLayer_discovered_witness:
  "Open ex_env ''sample.xtf'' [] True ex_new = (True, ex_read)
   \<and> Open_filenames ''sample.xtf'' [] = Some (''sample.xtf'', [])
   \<and> map ResetReading (reader_layers ex_env ''sample.xtf'' []) = [ResetReading ex_street_layer]
   \<and> GetLayer (do_calls [CallICreateLayer ''Adhoc'' None] ex_read) 0 = Some (ResetReading ex_street_layer)
   \<and> GetLayer (do_calls [CallICreateLayer ''Adhoc'' None] ex_read) 1 = None"
proof -
  have f: "map ResetReading (reader_layers ex_env ''sample.xtf'' []) = [ResetReading ex_street_layer]"
    by (simp add: ex_env_def)
  from GetLayer_discovered [OF ex_Open ex_filenames(1) f [symmetric], of 0
      "[CallICreateLayer ''Adhoc'' None]"]
    GetLayer_discovered [OF ex_Open ex_filenames(1) f [symmetric], of 1
      "[CallICreateLayer ''Adhoc'' None]"]
    ex_Open ex_filenames(1) f
  show ?thesis by simp
qed

text \<open>
  Claim C3 as stated fails for a file that starts with a blank: the first byte that is not
  white space is \<^verbatim>\<open><\<close> and the window contains the marker, the transfer reader is
  available, and \<^verbatim>\<open>Open\<close> rejects the file, since it compares the first byte.
\<close>

theorem Open_probe_counterexample:
  "file_content ex_env ''padded.xtf'' = Some ('' '' @ ex_xtf)
   \<and> spec_probe_accepts (take 1000 ('' '' @ ex_xtf))
   \<and> reader_available ex_env
   \<and> fst (Open ex_env ''padded.xtf'' [] True ex_new) = False"
proof -
  have 1: "file_content ex_env ''padded.xtf'' = Some ('' '' @ ex_xtf)"
    by (simp add: ex_env_def)
  have 2: "spec_probe_accepts (take 1000 ('' '' @ ex_xtf))"
    by (simp add: spec_probe_accepts_def spec_isspace_def ex_xtf_def STARTS_WITH_def)
  have 3: "reader_available ex_env" by (simp add: ex_env_def)
  have 4: "header_rejected (szHeader_of (CHR '' '' # ex_xtf))"
    by (simp add: header_rejected_def szHeader_of_def ex_xtf_def)
  have 5: "fst (Open ex_env ''padded.xtf'' [] True ex_new) = False"
    by (simp add: Open_def ex_filenames(2) 1 4 Let_def)
  from 1 2 3 5 show ?thesis by simp
qed

theorem Open_probe_first_byte_witness:
  "Open_filenames ''sample.xtf'' [] = Some (''sample.xtf'', [])
   \<and> file_content ex_env ''sample.xtf'' = Some ex_xtf
   \<and> fst (Open ex_env ''sample.xtf'' [] True ex_new) = True
   \<and> Open_filenames ''padded.xtf'' [] = Some (''padded.xtf'', [])
   \<and> file_content ex_env ''padded.xtf'' = Some ('' '' @ ex_xtf)
   \<and> fst (Open ex_env ''padded.xtf'' [] True ex_new) = False
   \<and> cpl_errors (snd (Open ex_env ''padded.xtf'' [] True ex_new)) = []
   \<and> vsi_trace (snd (Open ex_env ''padded.xtf'' [] True ex_new)) =
       [VSIFOpenL ''padded.xtf'' ''r'', VSIFReadL ''padded.xtf'' 1000, VSIFCloseL ''padded.xtf'']"
proof -
  have c1: "file_content ex_env ''sample.xtf'' = Some ex_xtf"
    and c2: "file_content ex_env ''padded.xtf'' = Some ('' '' @ ex_xtf)"
    and r: "reader_available ex_env"
    by (simp_all add: ex_env_def)
  have m1: "True = ((\<exists>rest. ex_xtf = CHR ''<'' # rest)
                    \<and> sublist ''interlis.ch/INTERLIS2'' (c_str (take 999 ex_xtf)))"
    unfolding strstr_sublist [symmetric]
    by (simp add: ex_xtf_def c_str_def NUL_def STARTS_WITH_def)
  have m2: "False = ((\<exists>rest. '' '' @ ex_xtf = CHR ''<'' # rest)
                    \<and> sublist ''interlis.ch/INTERLIS2'' (c_str (take 999 ('' '' @ ex_xtf))))"
    by simp
  have e: "cpl_errors ex_new = []" "vsi_trace ex_new = []"
    by (simp_all add: ex_new_def OGRILI2DataSource_new_def)
  from Open_probe_first_byte [OF ex_filenames(1) c1 m1, of ex_new]
    Open_probe_first_byte [OF ex_filenames(2) c2 m2, of ex_new]
    ex_filenames c1 c2 r e
  show ?thesis by simp
qed

theorem TestCapability_pure_witness:
  "TestCapability ''createlayer'' ex_new = (True, ex_new)
   \<and> TestCapability ''ZGeometries'' ex_new = (True, ex_new)
   \<and> TestCapability ''RandomRead'' ex_new = (False, ex_new)"
  using TestCapability_pure [of "''createlayer''" ex_new]
    TestCapability_pure [of "''ZGeometries''" ex_new]
    TestCapability_pure [of "''RandomRead''" ex_new]
  by (simp add: EQUAL_def ODsCCreateLayer_def ODsCCurveGeometries_def ODsCZGeometries_def
      c_toupper_def)

end
